theory Spec2Isabelle
  imports Complex_Main
begin

section \<open>Python text primitives\<close>

text \<open>
  A Python \<open>str\<close> is modelled as a \<open>string\<close> whose characters are the code points
  below 256 (Latin-1). The character classes below are the ones Python assigns to these
  code points.
\<close>

definition is_dec :: "char \<Rightarrow> bool" where
  \<comment> \<open>the regular expression class \<open>\d\<close>, and the digits \<open>int()\<close> accepts\<close>
  "is_dec c = (c \<in> set ''0123456789'')"

definition digit_val :: "char \<Rightarrow> int" where
  "digit_val c = int (of_char c) - 48"

definition py_isspace :: "char \<Rightarrow> bool" where
  \<comment> \<open>\<open>str.isspace\<close>; also the class \<open>\s\<close> and the separators of \<open>str.split()\<close>\<close>
  "py_isspace c = (of_char c \<in> {9, 10, 11, 12, 13, 28, 29, 30, 31, 32, 133, 160 :: nat})"

definition py_isdigit :: "string \<Rightarrow> bool" where
  \<comment> \<open>\<open>str.isdigit\<close>: the decimal digits and the superscripts one, two, three\<close>
  "py_isdigit s =
     (s \<noteq> [] \<and> list_all (\<lambda>c. is_dec c \<or> of_char c \<in> {178, 179, 185 :: nat}) s)"

definition py_lower_char :: "char \<Rightarrow> char" where
  \<comment> \<open>the upper-case letters are 65..90 and 192..222 except 215; lower case is 32 above\<close>
  "py_lower_char c =
     (let n = of_char c :: nat
      in if (65 \<le> n \<and> n \<le> 90) \<or> (192 \<le> n \<and> n \<le> 222 \<and> n \<noteq> 215)
         then (case c of Char b0 b1 b2 b3 b4 b5 b6 b7 \<Rightarrow> Char b0 b1 b2 b3 b4 True b6 b7)
         else c)"

definition py_lower :: "string \<Rightarrow> string" where
  "py_lower s = map py_lower_char s"

fun starts_with :: "string \<Rightarrow> string \<Rightarrow> bool" where
  \<comment> \<open>\<open>s.startswith(p)\<close>, the prefix first\<close>
  "starts_with [] s = True"
| "starts_with (p # ps) [] = False"
| "starts_with (p # ps) (c # cs) = (p = c \<and> starts_with ps cs)"

fun contains :: "string \<Rightarrow> string \<Rightarrow> bool" where
  \<comment> \<open>\<open>p in s\<close> on two strings\<close>
  "contains p [] = (p = [])"
| "contains p (c # cs) = (starts_with p (c # cs) \<or> contains p cs)"

fun split_from :: "string \<Rightarrow> string \<Rightarrow> string list" where
  "split_from cur [] = (if cur = [] then [] else [cur])"
| "split_from cur (c # cs) =
     (if py_isspace c then (if cur = [] then split_from [] cs else cur # split_from [] cs)
      else split_from (cur @ [c]) cs)"

definition py_split :: "string \<Rightarrow> string list" where
  \<comment> \<open>\<open>s.split()\<close>: the maximal runs of characters that are not white space\<close>
  "py_split s = split_from [] s"

definition py_strip :: "string \<Rightarrow> string" where
  "py_strip s = rev (dropWhile py_isspace (rev (dropWhile py_isspace s)))"

fun int_digits :: "int \<Rightarrow> string \<Rightarrow> int option" where
  "int_digits acc [] = Some acc"
| "int_digits acc (c # cs) =
     (if is_dec c then int_digits (10 * acc + digit_val c) cs
      else if c = CHR ''_'' then
        (case cs of
           [] \<Rightarrow> None
         | d # ds \<Rightarrow> if is_dec d then int_digits (10 * acc + digit_val d) ds else None)
      else None)"

definition int_unsigned :: "string \<Rightarrow> int option" where
  "int_unsigned s =
     (case s of [] \<Rightarrow> None | c # cs \<Rightarrow> if is_dec c then int_digits (digit_val c) cs else None)"

definition py_int :: "string \<Rightarrow> int option" where
  \<comment> \<open>\<open>int(s)\<close> for a string without white space, as every argument here is (a token
      of \<open>split()\<close>, a group of digits, a text of digits and points); \<open>None\<close> is
      \<open>ValueError\<close>. A sign, then digits, single underscores allowed between two digits.
      The interpreter's limit on the number of digits is not modelled.\<close>
  "py_int s =
     (case s of
        [] \<Rightarrow> None
      | c # cs \<Rightarrow>
          if c = CHR ''-'' then map_option uminus (int_unsigned cs)
          else if c = CHR ''+'' then int_unsigned cs
          else int_unsigned s)"

fun underscores_ok :: "char option \<Rightarrow> string \<Rightarrow> bool" where
  \<comment> \<open>every underscore stands between two digits; the first argument is the character before\<close>
  "underscores_ok prev [] = (prev \<noteq> Some (CHR ''_''))"
| "underscores_ok prev (c # cs) =
     (if c = CHR ''_'' then
        (case prev of None \<Rightarrow> False | Some p \<Rightarrow> is_dec p \<and> underscores_ok (Some c) cs)
      else if prev = Some (CHR ''_'') \<and> \<not> is_dec c then False
      else underscores_ok (Some c) cs)"

definition drop_sign :: "string \<Rightarrow> string" where
  "drop_sign s = (case s of [] \<Rightarrow> [] | c # cs \<Rightarrow> if c = CHR ''-'' \<or> c = CHR ''+'' then cs else s)"

definition exponent_ok :: "string \<Rightarrow> bool" where
  "exponent_ok r =
     (case r of
        [] \<Rightarrow> True
      | e # ds \<Rightarrow> (e = CHR ''e'' \<or> e = CHR ''E'') \<and> drop_sign ds \<noteq> [] \<and> list_all is_dec (drop_sign ds))"

definition decimal_ok :: "string \<Rightarrow> bool" where
  "decimal_ok u =
     (let ip = takeWhile is_dec u; r = dropWhile is_dec u
      in case r of
           [] \<Rightarrow> ip \<noteq> []
         | c # cs \<Rightarrow>
             if c = CHR ''.''
             then (ip \<noteq> [] \<or> takeWhile is_dec cs \<noteq> []) \<and> exponent_ok (dropWhile is_dec cs)
             else ip \<noteq> [] \<and> exponent_ok r)"

definition py_float_ok :: "string \<Rightarrow> bool" where
  \<comment> \<open>whether \<open>float(s)\<close> accepts the string; otherwise it raises \<open>ValueError\<close>\<close>
  "py_float_ok s =
     (let t = py_strip s; u = drop_sign (filter (\<lambda>c. c \<noteq> CHR ''_'') t)
      in underscores_ok None t
         \<and> (py_lower u \<in> set [''inf'', ''infinity'', ''nan''] \<or> decimal_ok u))"

definition digit_char :: "nat \<Rightarrow> char" where
  "digit_char d = ''0123456789'' ! d"

function str_nat :: "nat \<Rightarrow> string" where
  "str_nat n = (if n < 10 then [digit_char n] else str_nat (n div 10) @ [digit_char (n mod 10)])"
  by pat_completeness auto
termination
  by (relation "measure id") auto

definition py_str_int :: "int \<Rightarrow> string" where
  \<comment> \<open>\<open>str(n)\<close>, the text an f-string inserts for an integer\<close>
  "py_str_int i = (if i < 0 then CHR ''-'' # str_nat (nat (- i)) else str_nat (nat i))"

fun join :: "string \<Rightarrow> string list \<Rightarrow> string" where
  \<comment> \<open>\<open>sep.join(parts)\<close>\<close>
  "join sep [] = []"
| "join sep [p] = p"
| "join sep (p # q # ps) = p @ sep @ join sep (q # ps)"


section \<open>Decoded JSON values\<close>

text \<open>
  The values \<open>json.loads\<close> returns. A dict is an association list in insertion order;
  its keys are strings and distinct, so looking a key up finds its one entry. A float is
  one of the finite doubles, written as the rational it equals, an infinity with its
  sign, or not-a-number; no floating-point arithmetic is done on it. The exceptions are
  the ones the extraction code can meet.
\<close>

datatype pyexc = ValueError | TypeError | AttributeError | KeyError | IndexError | OverflowError

datatype pyfloat = Finite rat | Infinite bool | NaN

datatype json =
    JNull
  | JBool bool
  | JInt int
  | JFloat pyfloat
  | JStr string
  | JArr "json list"
  | JObj "(string \<times> json) list"

type_synonym pydict = "(string \<times> json) list"

definition has_key :: "pydict \<Rightarrow> string \<Rightarrow> bool" where
  \<comment> \<open>\<open>k in obj\<close> for a dict\<close>
  "has_key obj k = (case map_of obj k of None \<Rightarrow> False | Some v \<Rightarrow> True)"

definition dict_get :: "pydict \<Rightarrow> string \<Rightarrow> json \<Rightarrow> json" where
  \<comment> \<open>\<open>obj.get(k, default)\<close>\<close>
  "dict_get obj k d = (case map_of obj k of None \<Rightarrow> d | Some v \<Rightarrow> v)"

fun py_truthy :: "json \<Rightarrow> bool" where
  "py_truthy JNull = False"
| "py_truthy (JBool b) = b"
| "py_truthy (JInt n) = (n \<noteq> 0)"
| "py_truthy (JFloat f) = (f \<noteq> Finite 0)"
| "py_truthy (JStr s) = (s \<noteq> [])"
| "py_truthy (JArr xs) = (xs \<noteq> [])"
| "py_truthy (JObj kvs) = (kvs \<noteq> [])"

fun py_in :: "string \<Rightarrow> json \<Rightarrow> pyexc + bool" where
  \<comment> \<open>\<open>k in x\<close> for a string \<open>k\<close>: a key of a dict, an element of a list, a substring of a
      string; anything else is not iterable\<close>
  "py_in k (JObj kvs) = Inr (has_key kvs k)"
| "py_in k (JArr xs) = Inr (JStr k \<in> set xs)"
| "py_in k (JStr s) = Inr (contains k s)"
| "py_in k v = Inl TypeError"

fun py_getitem :: "json \<Rightarrow> string \<Rightarrow> pyexc + json" where
  \<comment> \<open>\<open>x[k]\<close> for a string \<open>k\<close>\<close>
  "py_getitem (JObj kvs) k = (case map_of kvs k of None \<Rightarrow> Inl KeyError | Some v \<Rightarrow> Inr v)"
| "py_getitem v k = Inl TypeError"

fun py_len :: "json \<Rightarrow> pyexc + nat" where
  "py_len (JObj kvs) = Inr (length kvs)"
| "py_len (JArr xs) = Inr (length xs)"
| "py_len (JStr s) = Inr (length s)"
| "py_len v = Inl TypeError"

fun py_item0 :: "json \<Rightarrow> pyexc + json" where
  \<comment> \<open>\<open>x[0]\<close>; the keys of a decoded dict are strings, never \<open>0\<close>\<close>
  "py_item0 (JArr xs) = (case xs of [] \<Rightarrow> Inl IndexError | x # r \<Rightarrow> Inr x)"
| "py_item0 (JStr s) = (case s of [] \<Rightarrow> Inl IndexError | c # r \<Rightarrow> Inr (JStr [c]))"
| "py_item0 (JObj kvs) = Inl KeyError"
| "py_item0 v = Inl TypeError"

fun py_iter :: "json \<Rightarrow> pyexc + json list" where
  \<comment> \<open>the values a \<open>for\<close> loop over \<open>x\<close> visits\<close>
  "py_iter (JArr xs) = Inr xs"
| "py_iter (JObj kvs) = Inr (map (\<lambda>kv. JStr (fst kv)) kvs)"
| "py_iter (JStr s) = Inr (map (\<lambda>c. JStr [c]) s)"
| "py_iter v = Inl TypeError"

definition bind_exc :: "pyexc + 'a \<Rightarrow> ('a \<Rightarrow> pyexc + 'b) \<Rightarrow> pyexc + 'b" where
  \<comment> \<open>run the continuation unless an exception was raised\<close>
  "bind_exc m f = (case m of Inl e \<Rightarrow> Inl e | Inr v \<Rightarrow> f v)"

section \<open>Listing records\<close>

text \<open>
  A record is the dict the scraper builds. \<open>Price\<close> and \<open>ImageURL\<close> are the two
  keys that can be missing. A price is an integer or the float that \<open>float(v)\<close>
  returns for the decoded value \<open>v\<close>. A URL is a text, or the item template
  \<open>https://www.facebook.com/marketplace/item/\<close> followed by \<open>str(v)\<close> of the
  decoded \<open>id\<close>. An image URL is whatever the decoded tree holds at the place read.
\<close>

datatype price = PInt int | PFloatOf json

datatype url = Url string | ItemUrl json

record listing =
  Year :: int
  Make :: string
  Model :: string
  Price :: "price option"
  Mileage :: int
  URL :: url
  ImageURL :: "json option"

datatype outcome = Rejected | Raised pyexc | Produced listing

section \<open>Field normalisation\<close>

text \<open>
  \<open>re.search(r'(\d+)K\s*km', text)\<close> tries each start position from the left. At one
  position the match is forced: the digits must run up to the \<open>K\<close> and the white
  space up to the \<open>k\<close>, so taking the longest run of each loses no match. The result
  is group 1 of the leftmost match.
\<close>

definition match_k_km :: "string \<Rightarrow> string option" where
  "match_k_km s =
     (let ds = takeWhile is_dec s
      in if ds = [] then None
         else case dropWhile is_dec s of
                [] \<Rightarrow> None
              | c # r \<Rightarrow>
                  if c = CHR ''K'' \<and> starts_with ''km'' (dropWhile py_isspace r) then Some ds
                  else None)"

fun search_k_km :: "string \<Rightarrow> string option" where
  "search_k_km [] = None"
| "search_k_km (c # cs) =
     (case match_k_km (c # cs) of Some g \<Rightarrow> Some g | None \<Rightarrow> search_k_km cs)"

text \<open>
  \<open>re.search(r'(\d+(?:,\d+)*)\s*km', text)\<close>, in the same way: after the group comes
  white space or \<open>k\<close>, never a digit or a comma, so the group is the longest one.
  \<open>comma_groups g s\<close> extends the group \<open>g\<close> read so far by digits and by commas
  that a digit follows, and returns it with the rest of the text.
\<close>

fun comma_groups :: "string \<Rightarrow> string \<Rightarrow> string \<times> string" where
  "comma_groups g [] = (g, [])"
| "comma_groups g (c # cs) =
     (if is_dec c then comma_groups (g @ [c]) cs
      else if c = CHR '','' then
        (case cs of
           [] \<Rightarrow> (g, c # cs)
         | d # ds \<Rightarrow> if is_dec d then comma_groups (g @ [c, d]) ds else (g, c # cs))
      else (g, c # cs))"

definition match_km :: "string \<Rightarrow> string option" where
  "match_km s =
     (case s of
        [] \<Rightarrow> None
      | c # cs \<Rightarrow>
          if is_dec c then
            (case comma_groups [c] cs of
               (g, r) \<Rightarrow> if starts_with ''km'' (dropWhile py_isspace r) then Some g else None)
          else None)"

fun search_km :: "string \<Rightarrow> string option" where
  "search_km [] = None"
| "search_km (c # cs) =
     (case match_km (c # cs) of Some g \<Rightarrow> Some g | None \<Rightarrow> search_km cs)"

definition int_or_raise :: "string \<Rightarrow> pyexc + int" where
  "int_or_raise s = (case py_int s of None \<Rightarrow> Inl ValueError | Some n \<Rightarrow> Inr n)"

definition mileage_from_text :: "string \<Rightarrow> int \<Rightarrow> pyexc + int" where
  \<comment> \<open>the two searches, as both paths write them; \<open>unmatched\<close> is the mileage when
      neither pattern matches\<close>
  "mileage_from_text mileage_text unmatched =
     (case search_k_km mileage_text of
        Some g \<Rightarrow> bind_exc (int_or_raise g) (\<lambda>n. Inr (n * 1000))
      | None \<Rightarrow>
          (case search_km mileage_text of
             Some g \<Rightarrow> int_or_raise (filter (\<lambda>c. c \<noteq> CHR '','') g)
           | None \<Rightarrow> Inr unmatched))"

section \<open>Structured extraction\<close>

definition listing_title :: "pydict \<Rightarrow> json" where
  \<comment> \<open>\<open>obj.get('marketplace_listing_title', '') or obj.get('custom_title', '')\<close>\<close>
  "listing_title obj =
     (let t = dict_get obj ''marketplace_listing_title'' (JStr [])
      in if py_truthy t then t else dict_get obj ''custom_title'' (JStr []))"

fun py_float :: "json \<Rightarrow> pyexc + price" where
  \<comment> \<open>\<open>float(v)\<close>; the floating-point value itself is not computed\<close>
  "py_float (JStr s) = (if py_float_ok s then Inr (PFloatOf (JStr s)) else Inl ValueError)"
| "py_float (JInt n) =
     (if 2 ^ 1024 - 2 ^ 970 \<le> \<bar>n\<bar> then Inl OverflowError else Inr (PFloatOf (JInt n)))"
| "py_float (JFloat f) = Inr (PFloatOf (JFloat f))"
| "py_float (JBool b) = Inr (PFloatOf (JBool b))"
| "py_float v = Inl TypeError"

definition listing_price :: "pydict \<Rightarrow> pyexc + price option" where
  "listing_price obj =
     (if has_key obj ''listing_price'' then
        bind_exc (py_in ''amount'' (dict_get obj ''listing_price'' JNull)) (\<lambda>has_amount.
          if has_amount then
            bind_exc (py_getitem (dict_get obj ''listing_price'' JNull) ''amount'') (\<lambda>amount.
              case py_float amount of
                Inl e \<Rightarrow> if e = ValueError then Inr (Some (PInt 0)) else Inl e
              | Inr p \<Rightarrow> Inr (Some p))
          else Inr None)
      else Inr None)"

definition subtitle_mileage :: "json \<Rightarrow> int \<Rightarrow> pyexc + int" where
  \<comment> \<open>one round of the loop over the subtitles\<close>
  "subtitle_mileage subtitle mileage =
     bind_exc (py_in ''subtitle'' subtitle) (\<lambda>has_subtitle.
       if has_subtitle then
         bind_exc (py_getitem subtitle ''subtitle'') (\<lambda>t.
           case t of
             JStr mileage_text \<Rightarrow>
               if contains ''km'' (py_lower mileage_text)
               then mileage_from_text mileage_text mileage
               else Inr mileage
           | _ \<Rightarrow> Inl AttributeError)
       else Inr mileage)"

fun subtitles_loop :: "json list \<Rightarrow> int \<Rightarrow> pyexc + int" where
  "subtitles_loop [] mileage = Inr mileage"
| "subtitles_loop (subtitle # rest) mileage =
     bind_exc (subtitle_mileage subtitle mileage) (subtitles_loop rest)"

definition listing_mileage :: "pydict \<Rightarrow> pyexc + int" where
  "listing_mileage obj =
     (if has_key obj ''custom_sub_titles_with_rendering_flags'' then
        bind_exc (py_iter (dict_get obj ''custom_sub_titles_with_rendering_flags'' JNull))
          (\<lambda>subtitles. subtitles_loop subtitles 0)
      else Inr 0)"

definition image_uri :: "json \<Rightarrow> pyexc + json option" where
  \<comment> \<open>\<open>if 'image' in p: if 'uri' in p['image']: ... p['image']['uri']\<close>\<close>
  "image_uri p =
     bind_exc (py_in ''image'' p) (\<lambda>has_image.
       if has_image then
         bind_exc (py_getitem p ''image'') (\<lambda>img.
           bind_exc (py_in ''uri'' img) (\<lambda>has_uri.
             if has_uri then bind_exc (py_getitem img ''uri'') (\<lambda>uri. Inr (Some uri))
             else Inr None))
       else Inr None)"

definition primary_image :: "pydict \<Rightarrow> pyexc + json option" where
  "primary_image obj =
     (if has_key obj ''primary_listing_photo''
      then image_uri (dict_get obj ''primary_listing_photo'' JNull)
      else Inr None)"

definition photos_image :: "pydict \<Rightarrow> pyexc + json option" where
  "photos_image obj =
     (if has_key obj ''listing_photos'' then
        bind_exc (py_len (dict_get obj ''listing_photos'' JNull)) (\<lambda>n.
          if 0 < n then bind_exc (py_item0 (dict_get obj ''listing_photos'' JNull)) image_uri
          else Inr None)
      else Inr None)"

definition placeholder_image :: string where
  "placeholder_image = ''https://static.xx.fbcdn.net/rsrc.php/v3/yQ/r/8SkRZ1o0i0K.png''"

definition listing_image :: "pydict \<Rightarrow> pyexc + json" where
  "listing_image obj =
     bind_exc (primary_image obj) (\<lambda>primary.
       case primary of
         Some uri \<Rightarrow> Inr uri
       | None \<Rightarrow>
           bind_exc (photos_image obj) (\<lambda>photo.
             case photo of
               Some uri \<Rightarrow> Inr uri
             | None \<Rightarrow> Inr (JStr placeholder_image)))"

definition process_listing :: "pydict \<Rightarrow> outcome" where
  \<comment> \<open>the \<open>try\<close> block of a listing-shaped node: \<open>Rejected\<close> is its \<open>return\<close>, \<open>Raised\<close> an
      exception caught by its \<open>except\<close>, \<open>Produced\<close> the record it appends\<close>
  "process_listing obj =
     (case listing_title obj of
        JStr title \<Rightarrow>
          (let title_split = py_split title
           in if length title_split < 3 then Rejected
              else case py_int (title_split ! 0) of
                None \<Rightarrow> Rejected
              | Some year \<Rightarrow>
                  (case listing_price obj of
                     Inl e \<Rightarrow> Raised e
                   | Inr price \<Rightarrow>
                       (case listing_mileage obj of
                          Inl e \<Rightarrow> Raised e
                        | Inr mileage \<Rightarrow>
                            (case listing_image obj of
                               Inl e \<Rightarrow> Raised e
                             | Inr image_url \<Rightarrow>
                                 Produced
                                   \<lparr>Year = year, Make = title_split ! 1, Model = title_split ! 2,
                                    Price = price, Mileage = mileage,
                                    URL = ItemUrl (dict_get obj ''id'' (JStr [])),
                                    ImageURL = Some image_url\<rparr>))))
      | _ \<Rightarrow> Raised AttributeError)"

definition is_listing :: "pydict \<Rightarrow> bool" where
  "is_listing obj =
     ((has_key obj ''marketplace_listing_title'' \<or> has_key obj ''custom_title'')
      \<and> has_key obj ''listing_price'')"

fun search_listings :: "json \<Rightarrow> listing list \<Rightarrow> listing list"
  and search_values :: "pydict \<Rightarrow> listing list \<Rightarrow> listing list"
  and search_items :: "json list \<Rightarrow> listing list \<Rightarrow> listing list"
where
  "search_listings (JObj obj) vehicles_list =
     (if is_listing obj then
        (case process_listing obj of
           Rejected \<Rightarrow> vehicles_list
         | Raised e \<Rightarrow> search_values obj vehicles_list
         | Produced cars_dict \<Rightarrow> search_values obj (vehicles_list @ [cars_dict]))
      else search_values obj vehicles_list)"
| "search_listings (JArr items) vehicles_list = search_items items vehicles_list"
| "search_listings JNull vehicles_list = vehicles_list"
| "search_listings (JBool b) vehicles_list = vehicles_list"
| "search_listings (JInt n) vehicles_list = vehicles_list"
| "search_listings (JFloat f) vehicles_list = vehicles_list"
| "search_listings (JStr s) vehicles_list = vehicles_list"
| "search_values [] vehicles_list = vehicles_list"
| "search_values (kv # rest) vehicles_list =
     search_values rest (search_listings (snd kv) vehicles_list)"
| "search_items [] vehicles_list = vehicles_list"
| "search_items (item # rest) vehicles_list =
     search_items rest (search_listings item vehicles_list)"

definition process_json_data :: "json \<Rightarrow> listing list \<Rightarrow> listing list" where
  "process_json_data data vehicles_list = search_listings data vehicles_list"

section \<open>Markup extraction\<close>

text \<open>
  What the markup path reads of a listing container: the text of each \<open>span\<close> inside it,
  in document order, and the \<open>href\<close> of its first link that has one.
\<close>

record container =
  spans :: "string list"
  first_href :: "string option"

definition is_title_span :: "string \<Rightarrow> bool" where
  "is_title_span t = (t \<noteq> [] \<and> 3 \<le> length (py_split t) \<and> py_isdigit (py_split t ! 0))"

definition is_price_span :: "string \<Rightarrow> bool" where
  "is_price_span t = (t \<noteq> [] \<and> CHR ''$'' \<in> set t)"

definition is_mileage_span :: "string \<Rightarrow> bool" where
  "is_mileage_span t = (t \<noteq> [] \<and> contains ''km'' (py_lower t))"

definition price_from_text :: "string \<Rightarrow> int" where
  \<comment> \<open>\<open>int(re.sub(r'[^\d.]', '', price_text))\<close>, and 0 on \<open>ValueError\<close>\<close>
  "price_from_text price_text =
     (case py_int (filter (\<lambda>c. is_dec c \<or> c = CHR ''.'') price_text) of
        None \<Rightarrow> 0
      | Some n \<Rightarrow> n)"

definition absolute_url :: "string \<Rightarrow> string" where
  "absolute_url url_text =
     (if starts_with ''http'' url_text then url_text else ''https://www.facebook.com'' @ url_text)"

definition process_container :: "container \<Rightarrow> outcome" where
  \<comment> \<open>the \<open>try\<close> block of one container: \<open>Rejected\<close> is its \<open>continue\<close>\<close>
  "process_container c =
     (case find is_title_span (spans c) of
        None \<Rightarrow> Rejected
      | Some title_elem \<Rightarrow>
          (case find is_price_span (spans c) of
             None \<Rightarrow> Rejected
           | Some price_elem \<Rightarrow>
               (case first_href c of
                  None \<Rightarrow> Rejected
                | Some url_text \<Rightarrow>
                    (let title_text = py_strip title_elem;
                         price_text = py_strip price_elem;
                         mileage_text =
                           (case find is_mileage_span (spans c) of
                              None \<Rightarrow> ''0 km''
                            | Some t \<Rightarrow> py_strip t);
                         title_split = py_split title_text
                     in if length title_split < 3 then Rejected
                        else case py_int (title_split ! 0) of
                          None \<Rightarrow> Rejected
                        | Some year \<Rightarrow>
                            (case mileage_from_text mileage_text 0 of
                               Inl e \<Rightarrow> Raised e
                             | Inr mileage \<Rightarrow>
                                 Produced
                                   \<lparr>Year = year, Make = title_split ! 1, Model = title_split ! 2,
                                    Price = Some (PInt (price_from_text price_text)),
                                    Mileage = mileage,
                                    URL = Url (absolute_url url_text),
                                    ImageURL = None\<rparr>)))))"

fun containers_loop :: "container list \<Rightarrow> listing list \<Rightarrow> listing list" where
  "containers_loop [] vehicles_list = vehicles_list"
| "containers_loop (c # rest) vehicles_list =
     (case process_container c of
        Produced cars_dict \<Rightarrow> containers_loop rest (vehicles_list @ [cars_dict])
      | _ \<Rightarrow> containers_loop rest vehicles_list)"

section \<open>The extraction pipeline\<close>

text \<open>
  A parsed page: for each \<open>script\<close> of type \<open>application/json\<close> its string (if any)
  and what \<open>json.loads\<close> makes of it (\<open>None\<close> when it raises); the \<open>div\<close>s with role
  \<open>article\<close>; and the \<open>div\<close>s whose class contains the fragment \<open>x1qjc9v5\<close>.
\<close>

record script =
  script_string :: "string option"
  script_json :: "json option"

record page =
  script_tags :: "script list"
  article_divs :: "container list"
  class_divs :: "container list"

definition has_marker :: "string \<Rightarrow> bool" where
  "has_marker s = (contains ''marketplace_listing_title'' s \<or> contains ''custom_title'' s)"

fun scripts_loop :: "script list \<Rightarrow> bool \<times> listing list \<Rightarrow> bool \<times> listing list" where
  \<comment> \<open>the state is \<open>(json_data_found, vehicles_list)\<close>\<close>
  "scripts_loop [] st = st"
| "scripts_loop (s # rest) (json_data_found, vehicles_list) =
     (case script_string s of
        None \<Rightarrow> scripts_loop rest (json_data_found, vehicles_list)
      | Some str \<Rightarrow>
          if str = [] then scripts_loop rest (json_data_found, vehicles_list)
          else if has_marker str then
            (case script_json s of
               None \<Rightarrow> scripts_loop rest (True, vehicles_list)
             | Some data \<Rightarrow> scripts_loop rest (True, process_json_data data vehicles_list))
          else scripts_loop rest (json_data_found, vehicles_list))"

definition listing_containers :: "page \<Rightarrow> container list" where
  "listing_containers p = (if article_divs p = [] then class_divs p else article_divs p)"

definition extract_page :: "page \<Rightarrow> listing list" where
  \<comment> \<open>\<open>scrape_listings\<close> from the parsed page on\<close>
  "extract_page p =
     (case scripts_loop (script_tags p) (False, []) of
        (json_data_found, vehicles_list) \<Rightarrow>
          if json_data_found then vehicles_list
          else containers_loop (listing_containers p) vehicles_list)"

definition get_sample_data :: "listing list" where
  "get_sample_data =
     [\<lparr>Year = 2018, Make = ''Honda'', Model = ''Civic'', Price = Some (PInt 15995),
       Mileage = 78500, URL = Url ''https://www.facebook.com/marketplace/item/sample1'',
       ImageURL = Some (JStr ''https://upload.wikimedia.org/wikipedia/commons/thumb/5/57/2018_Honda_Civic_SE_1.4_Front.jpg/1200px-2018_Honda_Civic_SE_1.4_Front.jpg'')\<rparr>,
      \<lparr>Year = 2017, Make = ''Toyota'', Model = ''Corolla'', Price = Some (PInt 14500),
       Mileage = 65000, URL = Url ''https://www.facebook.com/marketplace/item/sample2'',
       ImageURL = Some (JStr ''https://upload.wikimedia.org/wikipedia/commons/thumb/f/f6/2017_Toyota_Corolla_%28ZRE172R%29_Ascent_sedan_%282018-11-02%29_01.jpg/1200px-2017_Toyota_Corolla_%28ZRE172R%29_Ascent_sedan_%282018-11-02%29_01.jpg'')\<rparr>,
      \<lparr>Year = 2019, Make = ''Mazda'', Model = ''3'', Price = Some (PInt 17995),
       Mileage = 45000, URL = Url ''https://www.facebook.com/marketplace/item/sample3'',
       ImageURL = Some (JStr ''https://upload.wikimedia.org/wikipedia/commons/thumb/8/8c/2019_Mazda3_Sport_2.5L_AWD_%28North_America%29_front_NYIAS_2019.jpg/1200px-2019_Mazda3_Sport_2.5L_AWD_%28North_America%29_front_NYIAS_2019.jpg'')\<rparr>,
      \<lparr>Year = 2016, Make = ''Hyundai'', Model = ''Elantra'', Price = Some (PInt 12500),
       Mileage = 89000, URL = Url ''https://www.facebook.com/marketplace/item/sample4'',
       ImageURL = Some (JStr ''https://upload.wikimedia.org/wikipedia/commons/thumb/c/c5/2016_Hyundai_Elantra_%28AD%29_Elite_sedan_%282018-11-02%29_01.jpg/1200px-2016_Hyundai_Elantra_%28AD%29_Elite_sedan_%282018-11-02%29_01.jpg'')\<rparr>,
      \<lparr>Year = 2020, Make = ''Nissan'', Model = ''Sentra'', Price = Some (PInt 18995),
       Mileage = 32000, URL = Url ''https://www.facebook.com/marketplace/item/sample5'',
       ImageURL = Some (JStr ''https://upload.wikimedia.org/wikipedia/commons/thumb/f/fd/2020_Nissan_Sentra_SR%2C_front_12.21.19.jpg/1200px-2020_Nissan_Sentra_SR%2C_front_12.21.19.jpg'')\<rparr>]"

text \<open>
  What \<open>scrape_listings\<close> meets before the page is parsed: whether a cloud environment
  variable is set, whether the scraper holds a browser, whether \<open>initialize_browser\<close>
  succeeds, and the page the browser delivers (\<open>None\<close> when visiting, saving or parsing
  raises).
\<close>

record session =
  is_cloud :: bool
  has_browser :: bool
  initialize_browser :: bool
  loaded :: "page option"

definition scrape_listings :: "session \<Rightarrow> listing list" where
  "scrape_listings s =
     (if is_cloud s \<and> \<not> has_browser s then get_sample_data
      else if \<not> has_browser s \<and> \<not> initialize_browser s then get_sample_data
      else case loaded s of
             None \<Rightarrow> get_sample_data
           | Some p \<Rightarrow> extract_page p)"

section \<open>Query builder\<close>

text \<open>
  The arguments of \<open>build_search_url\<close>; an argument left at its default \<open>None\<close> is
  \<open>None\<close> here.
\<close>

record filter_options =
  location :: string
  min_price :: "int option"
  max_price :: "int option"
  days_listed :: "int option"
  min_mileage :: "int option"
  max_mileage :: "int option"
  min_year :: "int option"
  max_year :: "int option"
  transmission :: "string option"
  make_arg :: "string option"
  model_arg :: "string option"

definition add_int_param :: "string \<Rightarrow> int option \<Rightarrow> string list \<Rightarrow> string list" where
  \<comment> \<open>\<open>if v is not None: params.append(f"name={v}")\<close>\<close>
  "add_int_param name v params =
     (case v of None \<Rightarrow> params | Some n \<Rightarrow> params @ [name @ ''='' @ py_str_int n])"

definition add_str_param :: "string \<Rightarrow> string option \<Rightarrow> string list \<Rightarrow> string list" where
  "add_str_param name v params =
     (case v of None \<Rightarrow> params | Some s \<Rightarrow> params @ [name @ ''='' @ s])"

definition add_query_param :: "string option \<Rightarrow> string option \<Rightarrow> string list \<Rightarrow> string list" where
  "add_query_param mk md params =
     (if mk \<noteq> None \<and> md \<noteq> None then params @ [''query='' @ the mk @ the md]
      else if mk \<noteq> None then params @ [''query='' @ the mk]
      else if md \<noteq> None then params @ [''query='' @ the md]
      else params)"

definition build_params :: "filter_options \<Rightarrow> string list" where
  "build_params f =
     (let params = [];
          params = add_int_param ''minPrice'' (min_price f) params;
          params = add_int_param ''maxPrice'' (max_price f) params;
          params = add_int_param ''daysSinceListed'' (days_listed f) params;
          params = add_int_param ''minMileage'' (min_mileage f) params;
          params = add_int_param ''maxMileage'' (max_mileage f) params;
          params = add_int_param ''minYear'' (min_year f) params;
          params = add_int_param ''maxYear'' (max_year f) params;
          params = add_str_param ''transmissionType'' (transmission f) params;
          params = add_query_param (make_arg f) (model_arg f) params
      in params @ [''exact=false''])"

definition build_search_url :: "filter_options \<Rightarrow> string" where
  "build_search_url f =
     ''https://www.facebook.com/marketplace/'' @ location f @ ''/search?''
       @ join ''&'' (build_params f)"

text \<open>
  The contract in the specification's words: the named parameters in their fixed order,
  each present exactly when its field is, then the fixed marker.
\<close>

definition spec_query :: "filter_options \<Rightarrow> string option" where
  "spec_query f =
     (case (make_arg f, model_arg f) of
        (Some a, Some b) \<Rightarrow> Some (a @ b)
      | (Some a, None) \<Rightarrow> Some a
      | (None, Some b) \<Rightarrow> Some b
      | (None, None) \<Rightarrow> None)"

definition spec_fields :: "filter_options \<Rightarrow> (string \<times> string option) list" where
  "spec_fields f =
     [(''minPrice'', map_option py_str_int (min_price f)),
      (''maxPrice'', map_option py_str_int (max_price f)),
      (''daysSinceListed'', map_option py_str_int (days_listed f)),
      (''minMileage'', map_option py_str_int (min_mileage f)),
      (''maxMileage'', map_option py_str_int (max_mileage f)),
      (''minYear'', map_option py_str_int (min_year f)),
      (''maxYear'', map_option py_str_int (max_year f)),
      (''transmissionType'', transmission f),
      (''query'', spec_query f)]"

fun present_params :: "(string \<times> string option) list \<Rightarrow> string list" where
  "present_params [] = []"
| "present_params ((name, None) # fs) = present_params fs"
| "present_params ((name, Some v) # fs) = (name @ ''='' @ v) # present_params fs"

definition spec_params :: "filter_options \<Rightarrow> string list" where
  "spec_params f = present_params (spec_fields f) @ [''exact=false'']"


section \<open>The pipeline's two strategies\<close>

definition json_data_found :: "page \<Rightarrow> bool" where
  \<comment> \<open>the flag after the loop over the script tags\<close>
  "json_data_found p = fst (scripts_loop (script_tags p) (False, []))"

definition structured_records :: "page \<Rightarrow> listing list" where
  \<comment> \<open>what structured extraction over all script tags yields\<close>
  "structured_records p = snd (scripts_loop (script_tags p) (False, []))"

definition markup_records :: "page \<Rightarrow> listing list" where
  \<comment> \<open>what markup extraction over the listing containers yields\<close>
  "markup_records p = containers_loop (listing_containers p) []"


definition populated :: "listing \<Rightarrow> bool" where
  \<comment> \<open>every field of the record holds a value, the texts are not empty\<close>
  "populated r =
     (0 < Year r \<and> Make r \<noteq> [] \<and> Model r \<noteq> []
      \<and> (case Price r of Some (PInt n) \<Rightarrow> 0 < n | _ \<Rightarrow> False)
      \<and> 0 < Mileage r
      \<and> (case URL r of Url u \<Rightarrow> u \<noteq> [] | ItemUrl v \<Rightarrow> False)
      \<and> (case ImageURL r of Some (JStr u) \<Rightarrow> u \<noteq> [] | _ \<Rightarrow> False))"

definition shown_image :: "listing \<Rightarrow> json option" where
  \<comment> \<open>the guard of \<open>display_listings\<close>: \<open>if "ImageURL" in car and car["ImageURL"]\<close>\<close>
  "shown_image car =
     (case ImageURL car of None \<Rightarrow> None | Some u \<Rightarrow> if py_truthy u then Some u else None)"

section \<open>The specification's readings\<close>

text \<open>
  The depth-bounded traversal the specification describes: a node deeper than the bound
  is not visited, the rest of the traversal goes on. The root has depth 0.
\<close>

fun search_bounded :: "nat \<Rightarrow> nat \<Rightarrow> json \<Rightarrow> listing list \<Rightarrow> listing list"
  and values_bounded :: "nat \<Rightarrow> nat \<Rightarrow> pydict \<Rightarrow> listing list \<Rightarrow> listing list"
  and items_bounded :: "nat \<Rightarrow> nat \<Rightarrow> json list \<Rightarrow> listing list \<Rightarrow> listing list"
where
  "search_bounded bound depth (JObj obj) vehicles_list =
     (if bound < depth then vehicles_list
      else if is_listing obj then
        (case process_listing obj of
           Rejected \<Rightarrow> values_bounded bound (Suc depth) obj vehicles_list
         | Raised e \<Rightarrow> values_bounded bound (Suc depth) obj vehicles_list
         | Produced cars_dict \<Rightarrow>
             values_bounded bound (Suc depth) obj (vehicles_list @ [cars_dict]))
      else values_bounded bound (Suc depth) obj vehicles_list)"
| "search_bounded bound depth (JArr items) vehicles_list =
     (if bound < depth then vehicles_list
      else items_bounded bound (Suc depth) items vehicles_list)"
| "search_bounded bound depth JNull vehicles_list = vehicles_list"
| "search_bounded bound depth (JBool b) vehicles_list = vehicles_list"
| "search_bounded bound depth (JInt n) vehicles_list = vehicles_list"
| "search_bounded bound depth (JFloat f) vehicles_list = vehicles_list"
| "search_bounded bound depth (JStr s) vehicles_list = vehicles_list"
| "values_bounded bound depth [] vehicles_list = vehicles_list"
| "values_bounded bound depth (kv # rest) vehicles_list =
     values_bounded bound depth rest (search_bounded bound depth (snd kv) vehicles_list)"
| "items_bounded bound depth [] vehicles_list = vehicles_list"
| "items_bounded bound depth (item # rest) vehicles_list =
     items_bounded bound depth rest (search_bounded bound depth item vehicles_list)"


text \<open>
  The image fallback chain in the specification's words: the primary photo's image URI,
  else the image URI of the first entry of the photo list, else the placeholder.
\<close>

fun member_of :: "string \<Rightarrow> json \<Rightarrow> json option" where
  \<comment> \<open>the member of an object under a key; nothing else has members\<close>
  "member_of k (JObj kvs) = map_of kvs k"
| "member_of k v = None"

definition image_uri_of :: "json \<Rightarrow> json option" where
  "image_uri_of p = Option.bind (member_of ''image'' p) (member_of ''uri'')"

definition first_photo :: "pydict \<Rightarrow> json option" where
  "first_photo obj =
     (case map_of obj ''listing_photos'' of
        Some (JArr (p # ps)) \<Rightarrow> Some p
      | _ \<Rightarrow> None)"

definition image_chain :: "pydict \<Rightarrow> json" where
  "image_chain obj =
     (case Option.bind (map_of obj ''primary_listing_photo'') image_uri_of of
        Some uri \<Rightarrow> uri
      | None \<Rightarrow>
          (case Option.bind (first_photo obj) image_uri_of of
             Some uri \<Rightarrow> uri
           | None \<Rightarrow> JStr placeholder_image))"













section \<open>Example inputs\<close>

definition civic_node :: pydict where
  "civic_node =
     [(''marketplace_listing_title'', JStr ''2018 Honda Civic EX''),
      (''listing_price'', JObj [(''amount'', JStr ''15995'')]),
      (''id'', JStr ''123'')]"

definition civic_record :: listing where
  "civic_record =
     \<lparr>Year = 2018, Make = ''Honda'', Model = ''Civic'',
      Price = Some (PFloatOf (JStr ''15995'')), Mileage = 0,
      URL = ItemUrl (JStr ''123''), ImageURL = Some (JStr placeholder_image)\<rparr>"

definition civic_container :: container where
  "civic_container =
     \<lparr>spans = [''$15,995'', ''2018 Honda Civic EX'', ''Toronto, ON'', ''78K km''],
      first_href = Some ''/marketplace/item/123''\<rparr>"

definition civic_markup_record :: listing where
  "civic_markup_record =
     \<lparr>Year = 2018, Make = ''Honda'', Model = ''Civic'', Price = Some (PInt 15995),
      Mileage = 78000, URL = Url ''https://www.facebook.com/marketplace/item/123'',
      ImageURL = None\<rparr>"



section \<open>Query builder: results\<close>

lemma add_int_param_append:
  "add_int_param name v params = params @ present_params [(name, map_option py_str_int v)]"
  by (cases v) (simp_all add: add_int_param_def)

lemma add_str_param_append:
  "add_str_param name v params = params @ present_params [(name, v)]"
  by (cases v) (simp_all add: add_str_param_def)

lemma add_query_param_append:
  "add_query_param (make_arg f) (model_arg f) params = params @ present_params [(''query'', spec_query f)]"
  by (cases "make_arg f"; cases "model_arg f") (simp_all add: add_query_param_def spec_query_def)

lemma present_params_append:
  "present_params (fs @ gs) = present_params fs @ present_params gs"
  by (induction fs rule: present_params.induct) simp_all

lemma present_params_Cons:
  "present_params (x # fs) = present_params [x] @ present_params fs"
  using present_params_append [of "[x]" fs] by simp

lemma build_params_spec: "build_params f = spec_params f"
  unfolding build_params_def spec_params_def spec_fields_def Let_def
    add_int_param_append add_str_param_append add_query_param_append
  by (simp add: present_params_Cons [of _ "_ # _"])

lemma build_search_url_example:
  "build_search_url
     \<lparr>location = ''toronto'', min_price = Some 1000, max_price = Some 30000,
      days_listed = None, min_mileage = None, max_mileage = None, min_year = None,
      max_year = None, transmission = None, make_arg = Some ''Honda'',
      model_arg = Some ''Civic''\<rparr>
   = ''https://www.facebook.com/marketplace/toronto/search?minPrice=1000&maxPrice=30000&query=HondaCivic&exact=false''"
  by (simp add: build_search_url_def build_params_def add_int_param_def add_query_param_def
        add_str_param_def py_str_int_def digit_char_def)

text \<open>
  C8. For every filter the builder returns one URL: the marketplace prefix with the
  location, then the parameters \<open>minPrice\<close>, \<open>maxPrice\<close>, \<open>daysSinceListed\<close>,
  \<open>minMileage\<close>, \<open>maxMileage\<close>, \<open>minYear\<close>, \<open>maxYear\<close>, \<open>transmissionType\<close>,
  \<open>query\<close> in this order, each appearing exactly when its field is present (an absent
  field contributes nothing), the query being make followed by model, or whichever is
  present, and \<open>exact=false\<close> always last. The result is a function of the filter alone.
\<close>

theorem build_search_url_contract:
  "build_search_url f =
     ''https://www.facebook.com/marketplace/'' @ location f @ ''/search?''
       @ join ''&'' (present_params (spec_fields f) @ [''exact=false''])
   \<and> last (build_params f) = ''exact=false''"
  by (simp add: build_search_url_def build_params_spec spec_params_def)


section \<open>The extraction pipeline: results\<close>

lemma scripts_loop_found_mono:
  "scripts_loop ss (True, vs) = (f, vs') \<Longrightarrow> f"
  by (induction ss "(True, vs)" arbitrary: vs rule: scripts_loop.induct)
     (auto split: option.splits if_splits)

lemma scripts_loop_not_found:
  "scripts_loop ss (False, vs) = (False, vs') \<Longrightarrow> vs' = vs"
proof (induction ss arbitrary: vs)
  case Nil
  then show ?case by simp
next
  case (Cons s ss)
  then show ?case
    by (auto split: option.splits if_splits dest: scripts_loop_found_mono)
qed






lemma extract_page_cases:
  "extract_page p = (if json_data_found p then structured_records p else markup_records p)"
  unfolding extract_page_def json_data_found_def structured_records_def markup_records_def
  by (cases "scripts_loop (script_tags p) (False, [])")
     (auto dest: scripts_loop_not_found)

lemma civic_container_record: "process_container civic_container = Produced civic_markup_record"
  by code_simp

lemma civic_node_record: "process_listing civic_node = Produced civic_record"
  by code_simp

lemma civic_node_search: "search_listings (JObj civic_node) vs = vs @ [civic_record]"
  by (simp add: civic_node_record) (simp add: civic_node_def is_listing_def has_key_def)

text \<open>
  C1, as the code has it. When structured and markup extraction both yield nothing, the
  pipeline returns the empty sequence. The fixed sample set of five populated records is
  what \<open>scrape_listings\<close> returns when it has no browser (in a cloud environment, or
  when initialisation fails) or when loading the page raises; otherwise it returns what
  the page yields. It always returns a sequence.
\<close>

theorem empty_result_is_returned:
  "(structured_records p = [] \<and> markup_records p = [] \<longrightarrow> extract_page p = [])
   \<and> scrape_listings s =
       (case loaded s of
          None \<Rightarrow> get_sample_data
        | Some q \<Rightarrow>
            if has_browser s \<or> (\<not> is_cloud s \<and> initialize_browser s) then extract_page q
            else get_sample_data)
   \<and> length get_sample_data = 5 \<and> list_all populated get_sample_data"
proof -
  have a: "structured_records p = [] \<and> markup_records p = [] \<longrightarrow> extract_page p = []"
    by (simp add: extract_page_cases)
  have b: "scrape_listings s =
       (case loaded s of
          None \<Rightarrow> get_sample_data
        | Some q \<Rightarrow>
            if has_browser s \<or> (\<not> is_cloud s \<and> initialize_browser s) then extract_page q
            else get_sample_data)"
    by (auto simp: scrape_listings_def split: option.splits)
  have c: "length get_sample_data = 5"
    by (simp add: get_sample_data_def)
  have d: "list_all populated get_sample_data"
    by (simp add: get_sample_data_def populated_def)
  from a b c d show ?thesis by blast
qed

theorem empty_result_is_returned_witness:
  "structured_records \<lparr>script_tags = [], article_divs = [], class_divs = []\<rparr> = []
   \<and> markup_records \<lparr>script_tags = [], article_divs = [], class_divs = []\<rparr> = []
   \<and> extract_page \<lparr>script_tags = [], article_divs = [], class_divs = []\<rparr> = []"
proof -
  let ?p = "\<lparr>script_tags = [], article_divs = [], class_divs = []\<rparr>"
  have s: "structured_records ?p = []"
    by (simp add: structured_records_def)
  have m: "markup_records ?p = []"
    by (simp add: markup_records_def listing_containers_def)
  from s m empty_result_is_returned [of ?p] show ?thesis by blast
qed

theorem empty_page_not_sample_counterexample:
  "structured_records \<lparr>script_tags = [], article_divs = [], class_divs = []\<rparr> = []
   \<and> markup_records \<lparr>script_tags = [], article_divs = [], class_divs = []\<rparr> = []
   \<and> scrape_listings
       \<lparr>is_cloud = False, has_browser = True, initialize_browser = True,
        loaded = Some \<lparr>script_tags = [], article_divs = [], class_divs = []\<rparr>\<rparr> = []
   \<and> get_sample_data \<noteq> []"
  by (simp add: structured_records_def markup_records_def listing_containers_def
        scrape_listings_def extract_page_def get_sample_data_def)




section \<open>The structured traversal: results\<close>

lemma rejected_stops_search:
  "is_listing obj \<Longrightarrow> process_listing obj = Rejected \<Longrightarrow> search_listings (JObj obj) vs = vs"
  by simp

text \<open>
  C3, at the failing inputs. A listing-shaped node whose title has two tokens, and one
  whose first title token is no integer, each holding a well-formed listing node as a
  child: the traversal returns from the rejected node at once and the child, which alone
  yields a record, is never visited.
\<close>

theorem rejected_node_hides_children:
  "search_listings
     (JObj [(''marketplace_listing_title'', JStr ''Honda Civic''),
            (''listing_price'', JObj []),
            (''node'', JObj civic_node)]) [] = []
   \<and> search_listings
       (JObj [(''marketplace_listing_title'', JStr ''Honda Civic 2018''),
              (''listing_price'', JObj []),
              (''node'', JObj civic_node)]) [] = []
   \<and> search_listings (JObj civic_node) [] = [civic_record]"
proof -
  have a: "search_listings
     (JObj [(''marketplace_listing_title'', JStr ''Honda Civic''),
            (''listing_price'', JObj []),
            (''node'', JObj civic_node)]) [] = []"
    by code_simp
  have b: "search_listings
       (JObj [(''marketplace_listing_title'', JStr ''Honda Civic 2018''),
              (''listing_price'', JObj []),
              (''node'', JObj civic_node)]) [] = []"
    by code_simp
  have c: "search_listings (JObj civic_node) [] = [civic_record]"
    by (simp add: civic_node_search del: search_listings.simps)
  from a b c show ?thesis by blast
qed






section \<open>Image URLs: results\<close>

lemma search_keeps:
  fixes P :: "listing \<Rightarrow> bool"
  assumes node: "\<And>obj r. process_listing obj = Produced r \<Longrightarrow> P r"
  shows "list_all P vs \<Longrightarrow> list_all P (search_listings j vs)"
    and "list_all P vs \<Longrightarrow> list_all P (search_values kvs vs)"
    and "list_all P vs \<Longrightarrow> list_all P (search_items js vs)"
proof (induction j vs and kvs vs and js vs rule: search_listings_search_values_search_items.induct)
  case (1 obj vehicles_list)
  then show ?case
    by (auto split: outcome.splits dest: node)
qed auto

lemma scripts_loop_keeps:
  fixes P :: "listing \<Rightarrow> bool"
  assumes node: "\<And>obj r. process_listing obj = Produced r \<Longrightarrow> P r"
  shows "list_all P vs \<Longrightarrow> list_all P (snd (scripts_loop ss (f, vs)))"
proof (induction ss arbitrary: f vs)
  case Nil
  then show ?case by simp
next
  case (Cons s ss)
  then show ?case
    by (auto simp: process_json_data_def split: option.splits
             intro!: search_keeps(1) [of P] node)
qed

lemma containers_loop_keeps:
  fixes P :: "listing \<Rightarrow> bool"
  assumes node: "\<And>c r. process_container c = Produced r \<Longrightarrow> P r"
  shows "list_all P vs \<Longrightarrow> list_all P (containers_loop cs vs)"
proof (induction cs arbitrary: vs)
  case Nil
  then show ?case by simp
next
  case (Cons c cs)
  then show ?case
    by (cases "process_container c") (auto dest: node)
qed

lemma image_uri_spec: "image_uri p = Inr u \<Longrightarrow> u = image_uri_of p"
  unfolding image_uri_def image_uri_of_def bind_exc_def
  apply (cases p; simp add: has_key_def split: option.splits if_splits)
  subgoal for kvs v
    by (cases v; simp add: has_key_def split: option.splits if_splits)
  done

lemma primary_image_spec:
  "primary_image obj = Inr u \<Longrightarrow> u = Option.bind (map_of obj ''primary_listing_photo'') image_uri_of"
  unfolding primary_image_def
  by (auto simp: has_key_def dict_get_def split: option.splits if_splits dest: image_uri_spec)

lemma photos_image_spec:
  "photos_image obj = Inr u \<Longrightarrow> u = Option.bind (first_photo obj) image_uri_of"
proof (cases "map_of obj ''listing_photos''")
  case None
  then show "photos_image obj = Inr u \<Longrightarrow> ?thesis"
    by (simp add: photos_image_def first_photo_def has_key_def)
next
  case (Some v)
  assume run: "photos_image obj = Inr u"
  from Some run show ?thesis
    unfolding photos_image_def first_photo_def bind_exc_def
    by (cases v)
       (auto simp: has_key_def dict_get_def image_uri_of_def
             split: list.splits if_splits sum.splits dest!: image_uri_spec)
qed

lemma listing_image_spec: "listing_image obj = Inr u \<Longrightarrow> u = image_chain obj"
  unfolding listing_image_def image_chain_def bind_exc_def
  by (auto split: sum.splits option.splits dest!: primary_image_spec photos_image_spec)

lemma process_listing_image_chain:
  "process_listing obj = Produced r \<Longrightarrow> ImageURL r = Some (image_chain obj)"
  unfolding process_listing_def
  by (auto simp: Let_def split: json.splits if_splits option.splits sum.splits
           dest!: listing_image_spec)

lemma process_container_no_image:
  "process_container c = Produced r \<Longrightarrow> ImageURL r = None"
  unfolding process_container_def
  by (auto simp: Let_def split: option.splits if_splits sum.splits)

text \<open>
  C9. The record a listing node produces has its image URL resolved through the chain:
  the primary photo's image URI if present, else the image URI of the first entry of the
  photo list if present, else the fixed placeholder. So every record of the structured
  traversal has an image URL.
\<close>

theorem image_url_fallback_chain:
  "(process_listing obj = Produced r \<longrightarrow> ImageURL r = Some (image_chain obj))
   \<and> list_all (\<lambda>r. ImageURL r \<noteq> None) (search_listings j [])"
proof -
  have "list_all (\<lambda>r. ImageURL r \<noteq> None) (search_listings j [])"
    by (rule search_keeps(1)) (auto dest: process_listing_image_chain)
  then show ?thesis
    by (auto dest: process_listing_image_chain)
qed

theorem image_url_fallback_chain_witness:
  "process_listing
     [(''custom_title'', JStr ''2017 Toyota Corolla''),
      (''listing_price'', JObj []),
      (''primary_listing_photo'', JObj [(''id'', JStr ''9'')]),
      (''listing_photos'', JArr [JObj [(''image'', JObj [(''uri'', JStr ''https://img/2'')])]])]
   = Produced
       \<lparr>Year = 2017, Make = ''Toyota'', Model = ''Corolla'', Price = None, Mileage = 0,
        URL = ItemUrl (JStr []), ImageURL = Some (JStr ''https://img/2'')\<rparr>
   \<and> image_chain
       [(''custom_title'', JStr ''2017 Toyota Corolla''),
        (''listing_price'', JObj []),
        (''primary_listing_photo'', JObj [(''id'', JStr ''9'')]),
        (''listing_photos'', JArr [JObj [(''image'', JObj [(''uri'', JStr ''https://img/2'')])]])]
     = JStr ''https://img/2''"
proof -
  let ?obj = "[(''custom_title'', JStr ''2017 Toyota Corolla''),
      (''listing_price'', JObj []),
      (''primary_listing_photo'', JObj [(''id'', JStr ''9'')]),
      (''listing_photos'', JArr [JObj [(''image'', JObj [(''uri'', JStr ''https://img/2'')])]])]"
  let ?r = "\<lparr>Year = 2017, Make = ''Toyota'', Model = ''Corolla'', Price = None, Mileage = 0,
        URL = ItemUrl (JStr []), ImageURL = Some (JStr ''https://img/2'')\<rparr>"
  have run: "process_listing ?obj = Produced ?r"
    by code_simp
  have "process_listing ?obj = Produced ?r \<longrightarrow> ImageURL ?r = Some (image_chain ?obj)"
    by (rule image_url_fallback_chain [of ?obj ?r, THEN conjunct1])
  with run show ?thesis by simp
qed

text \<open>
  C10. No record of the markup path has an image URL, and the card display, which shows
  an image only when the record has a non-empty one, shows none for them; every record of
  the structured path and every record of the sample set has one.
\<close>

theorem markup_records_have_no_image:
  "list_all (\<lambda>r. ImageURL r = None) (markup_records p)
   \<and> list_all (\<lambda>r. shown_image r = None) (markup_records p)
   \<and> list_all (\<lambda>r. ImageURL r \<noteq> None) (structured_records p)
   \<and> list_all (\<lambda>r. ImageURL r \<noteq> None) get_sample_data"
proof -
  have a: "list_all (\<lambda>r. ImageURL r = None) (markup_records p)"
    unfolding markup_records_def
    by (rule containers_loop_keeps) (auto dest: process_container_no_image)
  have b: "list_all (\<lambda>r. shown_image r = None) (markup_records p)"
    unfolding markup_records_def
    by (rule containers_loop_keeps)
       (auto simp: shown_image_def dest: process_container_no_image)
  have c: "list_all (\<lambda>r. ImageURL r \<noteq> None) (structured_records p)"
    unfolding structured_records_def
    by (rule scripts_loop_keeps) (auto dest: process_listing_image_chain)
  have d: "list_all (\<lambda>r. ImageURL r \<noteq> None) get_sample_data"
    by (simp add: get_sample_data_def)
  from a b c d show ?thesis by blast
qed

theorem markup_records_have_no_image_witness:
  "markup_records \<lparr>script_tags = [], article_divs = [civic_container], class_divs = []\<rparr>
     = [civic_markup_record]
   \<and> ImageURL civic_markup_record = None"
proof -
  let ?p = "\<lparr>script_tags = [], article_divs = [civic_container], class_divs = []\<rparr>"
  have m: "markup_records ?p = [civic_markup_record]"
    by (simp add: markup_records_def listing_containers_def civic_container_record)
  have "list_all (\<lambda>r. ImageURL r = None) (markup_records ?p)"
    by (rule markup_records_have_no_image [of ?p, THEN conjunct1])
  with m show ?thesis by simp
qed

section \<open>Mileage normalisation: results\<close>

































section \<open>Price normalisation: results\<close>















section \<open>The title rule: results\<close>















end
